theory Spec2Isabelle
  imports Main "HOL-Library.Word"
begin

section \<open>Data model (internal/subscriptions/model.go)\<close>

text \<open>
  Go strings are byte sequences and are modelled as \<open>string\<close> (a list of 8-bit characters).
  \<open>uuid.UUID\<close> is a 16-byte array, modelled as a 128-bit word; \<open>uuid.Nil\<close> is the
  all-zero value. Go's \<open>int\<close> fields (price, identifiers, totals) are only compared and
  copied by the code modelled here, never used in arithmetic, so they are modelled as \<open>int\<close>.
  A \<open>*string\<close> or \<open>*uuid.UUID\<close> is an \<open>option\<close>: \<open>nil\<close> is \<open>None\<close>.
  Timestamps are seconds as \<open>int\<close>.
\<close>

type_synonym uuid = "128 word"

definition uuid_Nil :: uuid where
  "uuid_Nil = 0"

record Subscription =
  sub_ID :: int
  sub_ServiceName :: string
  sub_Price :: int
  sub_UserID :: uuid
  sub_StartDate :: string
  sub_EndDate :: "string option"
  sub_CreatedAt :: int
  sub_UpdatedAt :: int

record CreateSubscriptionRequest =
  ServiceName :: string
  Price :: int
  UserID :: uuid
  StartDate :: string
  EndDate :: "string option"

record UpdateSubscriptionRequest =
  upd_ServiceName :: string
  upd_Price :: int
  upd_UserID :: uuid
  upd_StartDate :: string
  upd_EndDate :: "string option"

record CostResponse =
  TotalCost :: int
  Count :: int

text \<open>
  Go errors. \<open>Errorf msg\<close> is \<open>fmt.Errorf(msg)\<close> without verbs; \<open>Wrapf prefix err\<close> is
  \<open>fmt.Errorf(prefix + "%w", err)\<close>.
\<close>

datatype error = Errorf string | Wrapf string error

text \<open>
  The error kinds the specification names, as classes of the errors the code constructs:
  every error of \<open>validateDateFormat\<close> is an invalid-period-format error, and the error of
  the both-dates-empty check is the missing-date-range error.
\<close>

definition InvalidPeriodFormat :: "error \<Rightarrow> bool" where
  "InvalidPeriodFormat e =
     (e = Errorf ''date cannot be empty'' \<or> e = Errorf ''date must be in MM-YYYY format'')"

definition MissingDateRange :: "error \<Rightarrow> bool" where
  "MissingDateRange e = (e = Errorf ''at least one date parameter is required'')"

section \<open>The period validator (service.validateDateFormat)\<close>

text \<open>
  The validator calls \<open>regexp.MatchString\<close> with the pattern \<^verbatim>\<open>^\d{2}-\d{4}$\<close>.
  The fragment of Go's regular expressions that the pattern uses is modelled: a pattern
  is a sequence of atoms, \<^verbatim>\<open>^\<close> and \<^verbatim>\<open>$\<close> match only at the beginning and
  at the end of the text (Go's default, without the multi-line flag), \<^verbatim>\<open>\d\<close> is an ASCII
  digit, and a counted repetition \<open>a{n}\<close> is \<open>n\<close> copies of \<open>a\<close>.
  \<open>MatchString\<close> reports whether the text contains a match, so it tries every start offset.
  Every atom of the pattern matches at most one ASCII byte, so matching bytes and matching
  UTF-8 code points agree.
\<close>

datatype re_atom = BeginText | EndText | Digit | Literal char

type_synonym regex = "re_atom list"

definition counted :: "nat \<Rightarrow> re_atom \<Rightarrow> regex" where
  "counted n a = replicate n a"

definition is_digit :: "char \<Rightarrow> bool" where
  "is_digit c = (c \<in> set ''0123456789'')"

fun match_here :: "regex \<Rightarrow> bool \<Rightarrow> string \<Rightarrow> bool" where
  "match_here [] at_start inp = True"
| "match_here (BeginText # rs) at_start inp = (at_start \<and> match_here rs at_start inp)"
| "match_here (EndText # rs) at_start inp = (inp = [] \<and> match_here rs at_start inp)"
| "match_here (Digit # rs) at_start inp =
     (case inp of [] \<Rightarrow> False | c # cs \<Rightarrow> is_digit c \<and> match_here rs False cs)"
| "match_here (Literal l # rs) at_start inp =
     (case inp of [] \<Rightarrow> False | c # cs \<Rightarrow> c = l \<and> match_here rs False cs)"

fun search :: "regex \<Rightarrow> bool \<Rightarrow> string \<Rightarrow> bool" where
  "search re at_start [] = match_here re at_start []"
| "search re at_start (c # cs) = (match_here re at_start (c # cs) \<or> search re False cs)"

definition regexp_MatchString :: "regex \<Rightarrow> string \<Rightarrow> bool" where
  "regexp_MatchString re s = search re True s"

definition pattern :: regex where
  "pattern = [BeginText] @ counted 2 Digit @ [Literal CHR ''-''] @ counted 4 Digit @ [EndText]"

text \<open>
  \<open>validateDateFormat\<close> returns \<open>None\<close> for Go's \<open>nil\<close> error. The pattern is a constant
  that compiles, so the \<open>err != nil\<close> disjunct of the source never fires.
\<close>

definition validateDateFormat :: "string \<Rightarrow> error option" where
  "validateDateFormat date =
     (if date = [] then Some (Errorf ''date cannot be empty'')
      else if \<not> regexp_MatchString pattern date
        then Some (Errorf ''date must be in MM-YYYY format'')
      else None)"

text \<open>
  The shape the specification words: exactly two digits, a hyphen, four digits.
\<close>

definition two_digits_hyphen_four_digits :: "string \<Rightarrow> bool" where
  "two_digits_hyphen_four_digits s =
     (length s = 7 \<and> is_digit (s ! 0) \<and> is_digit (s ! 1) \<and> s ! 2 = CHR ''-'' \<and>
      is_digit (s ! 3) \<and> is_digit (s ! 4) \<and> is_digit (s ! 5) \<and> is_digit (s ! 6))"

section \<open>The cost query builder (repository.GetCostByPeriod)\<close>

text \<open>
  \<open>fmt_d\<close> is the decimal rendering that the verb \<^verbatim>\<open>%d\<close> gives a non-negative
  integer, and \<open>Sprintf\<close> is \<open>fmt.Sprintf\<close> for a format with one \<^verbatim>\<open>%d\<close> verb and one
  argument, the only way the builder calls it. The counter \<open>argCount\<close> starts at 1 and is
  only incremented, so it is a \<open>nat\<close>.
\<close>

definition digit_char :: "nat \<Rightarrow> char" where
  "digit_char d = ''0123456789'' ! d"

fun fmt_d :: "nat \<Rightarrow> string" where
  "fmt_d n = (if n < 10 then [digit_char n] else fmt_d (n div 10) @ [digit_char (n mod 10)])"

declare fmt_d.simps [simp del]

fun Sprintf :: "string \<Rightarrow> nat \<Rightarrow> string" where
  "Sprintf [] n = []"
| "Sprintf (c # rest) n =
     (if c = CHR ''%'' \<and> take 1 rest = ''d'' then fmt_d n @ drop 1 rest
      else c # Sprintf rest n)"

text \<open>
  An entry of the parameter list \<open>args\<close> (Go's \<open>[]any\<close>): the builder appends the two
  period strings, the user identifier (as the pointer it was given, which the driver
  dereferences) and the dereferenced service name.
\<close>

datatype arg = ArgString string | ArgUUID uuid

definition baseQuery :: string where
  "baseQuery =
     ''SELECT COALESCE(SUM(price), 0) as total_cost, COUNT(*) as count FROM subscriptions WHERE 1=1''"

text \<open>
  The first part of \<open>repository.GetCostByPeriod\<close>, up to the call of the store: the
  statement text and its parameters. Each \<open>let\<close> is one \<open>if\<close> block of the source,
  updating \<open>query\<close>, \<open>args\<close> and \<open>argCount\<close>.
\<close>

definition buildCostQuery ::
  "string \<Rightarrow> string \<Rightarrow> uuid option \<Rightarrow> string option \<Rightarrow> string \<times> arg list" where
  "buildCostQuery startDate endDate userID serviceName =
     (let query = baseQuery;
          args = [];
          argCount = 1;
          (query, args, argCount) =
            (if startDate \<noteq> []
             then (query @ Sprintf '' AND start_date >= $%d'' argCount,
                   args @ [ArgString startDate], argCount + 1)
             else (query, args, argCount));
          (query, args, argCount) =
            (if endDate \<noteq> []
             then (query @ Sprintf '' AND (end_date IS NULL OR end_date >= $%d)'' argCount,
                   args @ [ArgString endDate], argCount + 1)
             else (query, args, argCount));
          (query, args, argCount) =
            (case userID of
               Some uid \<Rightarrow> (query @ Sprintf '' AND user_id = $%d'' argCount,
                            args @ [ArgUUID uid], argCount + 1)
             | None \<Rightarrow> (query, args, argCount));
          (query, args) =
            (case serviceName of
               Some name \<Rightarrow> (query @ Sprintf '' AND service_name = $%d'' argCount,
                             args @ [ArgString name])
             | None \<Rightarrow> (query, args))
      in (query, args))"

text \<open>
  The store is the connection pool's \<open>QueryRow(ctx, query, args...).Scan(&totalCost, &count)\<close>:
  a function of the statement, its parameters and the store's state \<open>'db\<close>, answering an
  error or the two scanned integers. The repository returns Go's triple
  \<open>(int, int, error)\<close>, with \<open>None\<close> for the \<open>nil\<close> error; log calls are not modelled.
\<close>

type_synonym 'db QueryRow = "string \<Rightarrow> arg list \<Rightarrow> 'db \<Rightarrow> (error + int \<times> int) \<times> 'db"

definition repository_GetCostByPeriod ::
  "'db QueryRow \<Rightarrow> string \<Rightarrow> string \<Rightarrow> uuid option \<Rightarrow> string option \<Rightarrow> 'db
    \<Rightarrow> (int \<times> int \<times> error option) \<times> 'db" where
  "repository_GetCostByPeriod db startDate endDate userID serviceName st =
     (let (query, args) = buildCostQuery startDate endDate userID serviceName
      in case db query args st of
           (Inl err, st') \<Rightarrow> ((0, 0, Some (Wrapf ''failed to calculate cost: '' err)), st')
         | (Inr (totalCost, count), st') \<Rightarrow> ((totalCost, count, None), st'))"

section \<open>The service (internal/subscriptions/service.go)\<close>

text \<open>
  The service holds a \<open>SubscriptionRepository\<close>, an interface. It is a record of the
  methods the operations below call, each a function of the repository's state \<open>'st\<close>
  that returns its result and the new state.
\<close>

record 'st SubscriptionRepository =
  repo_Create :: "CreateSubscriptionRequest \<Rightarrow> 'st \<Rightarrow> (error + Subscription) \<times> 'st"
  repo_Update :: "int \<Rightarrow> UpdateSubscriptionRequest \<Rightarrow> 'st \<Rightarrow> (error + Subscription) \<times> 'st"
  repo_GetCostByPeriod ::
    "string \<Rightarrow> string \<Rightarrow> uuid option \<Rightarrow> string option \<Rightarrow> 'st
      \<Rightarrow> (int \<times> int \<times> error option) \<times> 'st"

definition validateSubscriptionRequest :: "CreateSubscriptionRequest \<Rightarrow> error option" where
  "validateSubscriptionRequest req =
     (if ServiceName req = [] then Some (Errorf ''service_name is required'')
      else if Price req \<le> 0 then Some (Errorf ''price must be greater than 0'')
      else if UserID req = uuid_Nil
        then Some (Errorf ''user_id is required and must be valid UUID'')
      else case validateDateFormat (StartDate req) of
             Some err \<Rightarrow> Some err
           | None \<Rightarrow>
               (case EndDate req of
                  Some endDate \<Rightarrow> (if endDate \<noteq> [] then validateDateFormat endDate else None)
                | None \<Rightarrow> None))"

definition service_CreateSubscription ::
  "'st SubscriptionRepository \<Rightarrow> CreateSubscriptionRequest \<Rightarrow> 'st
    \<Rightarrow> (error + Subscription) \<times> 'st" where
  "service_CreateSubscription repo req st =
     (case validateSubscriptionRequest req of
        Some err \<Rightarrow> (Inl err, st)
      | None \<Rightarrow> repo_Create repo req st)"

definition service_UpdateSubscription ::
  "'st SubscriptionRepository \<Rightarrow> int \<Rightarrow> UpdateSubscriptionRequest \<Rightarrow> 'st
    \<Rightarrow> (error + Subscription) \<times> 'st" where
  "service_UpdateSubscription repo sid req st =
     (case validateSubscriptionRequest
             \<lparr>ServiceName = upd_ServiceName req, Price = upd_Price req,
              UserID = upd_UserID req, StartDate = upd_StartDate req,
              EndDate = upd_EndDate req\<rparr> of
        Some err \<Rightarrow> (Inl err, st)
      | None \<Rightarrow> repo_Update repo sid req st)"

definition service_GetCostByPeriod ::
  "'st SubscriptionRepository \<Rightarrow> string \<Rightarrow> string \<Rightarrow> uuid option \<Rightarrow> string option \<Rightarrow> 'st
    \<Rightarrow> (error + CostResponse) \<times> 'st" where
  "service_GetCostByPeriod repo startDate endDate userID serviceName st =
     (if startDate = [] \<and> endDate = []
      then (Inl (Errorf ''at least one date parameter is required''), st)
      else case validateDateFormat startDate of
             Some err \<Rightarrow> (Inl err, st)
           | None \<Rightarrow>
               (case (if endDate \<noteq> [] then validateDateFormat endDate else None) of
                  Some err \<Rightarrow> (Inl err, st)
                | None \<Rightarrow>
                    (case repo_GetCostByPeriod repo startDate endDate userID serviceName st of
                       ((totalCost, count, Some err), st') \<Rightarrow> (Inl err, st')
                     | ((totalCost, count, None), st') \<Rightarrow>
                         (Inr \<lparr>TotalCost = totalCost, Count = count\<rparr>, st'))))"

text \<open>
  The checks that \<open>service.GetCostByPeriod\<close> makes before it calls the repository, on
  their own: the error they return, or \<open>None\<close> when all of them pass.
\<close>

definition cost_validation :: "string \<Rightarrow> string \<Rightarrow> error option" where
  "cost_validation startDate endDate =
     (if startDate = [] \<and> endDate = []
      then Some (Errorf ''at least one date parameter is required'')
      else case validateDateFormat startDate of
             Some err \<Rightarrow> Some err
           | None \<Rightarrow> (if endDate \<noteq> [] then validateDateFormat endDate else None))"

section \<open>Repositories used to observe the service\<close>

text \<open>
  \<open>recording repo\<close> behaves as \<open>repo\<close> and appends every method call to a log kept beside
  the repository's state: the log tells which store accesses an operation issued.
\<close>

datatype repo_call =
    CallCreate CreateSubscriptionRequest
  | CallUpdate int UpdateSubscriptionRequest
  | CallGetCostByPeriod string string "uuid option" "string option"

definition recording ::
  "'st SubscriptionRepository \<Rightarrow> ('st \<times> repo_call list) SubscriptionRepository" where
  "recording repo =
     \<lparr>repo_Create = (\<lambda>req (st, calls).
        case repo_Create repo req st of (r, st') \<Rightarrow> (r, (st', calls @ [CallCreate req]))),
      repo_Update = (\<lambda>sid req (st, calls).
        case repo_Update repo sid req st of (r, st') \<Rightarrow> (r, (st', calls @ [CallUpdate sid req]))),
      repo_GetCostByPeriod = (\<lambda>startDate endDate userID serviceName (st, calls).
        case repo_GetCostByPeriod repo startDate endDate userID serviceName st of
          (r, st') \<Rightarrow>
            (r, (st', calls @ [CallGetCostByPeriod startDate endDate userID serviceName])))\<rparr>"

text \<open>
  The \<open>MockRepository\<close> of the service's tests with no function set: \<open>Create\<close> and
  \<open>Update\<close> echo the request, \<open>GetCostByPeriod\<close> answers \<open>0, 0, nil\<close>.
\<close>

definition MockRepository :: "unit SubscriptionRepository" where
  "MockRepository =
     \<lparr>repo_Create = (\<lambda>req st.
        (Inr \<lparr>sub_ID = 1, sub_ServiceName = ServiceName req, sub_Price = Price req,
              sub_UserID = UserID req, sub_StartDate = StartDate req,
              sub_EndDate = EndDate req, sub_CreatedAt = 0, sub_UpdatedAt = 0\<rparr>, st)),
      repo_Update = (\<lambda>sid req st.
        (Inr \<lparr>sub_ID = sid, sub_ServiceName = upd_ServiceName req, sub_Price = upd_Price req,
              sub_UserID = upd_UserID req, sub_StartDate = upd_StartDate req,
              sub_EndDate = upd_EndDate req, sub_CreatedAt = 0, sub_UpdatedAt = 0\<rparr>, st)),
      repo_GetCostByPeriod = (\<lambda>startDate endDate userID serviceName st. ((0, 0, None), st))\<rparr>"

text \<open>A store whose every read fails with the given error, and one that answers a fixed row.\<close>

definition failing_db :: "error \<Rightarrow> unit QueryRow" where
  "failing_db err query args st = (Inl err, st)"

definition constant_db :: "int \<Rightarrow> int \<Rightarrow> unit QueryRow" where
  "constant_db totalCost count query args st = (Inr (totalCost, count), st)"

section \<open>Reading the generated statement\<close>

text \<open>
  The conditions that the builder can append to the base clause, each with the number of
  its placeholder, and the text of each. \<open>cost_filters\<close> lists the conditions the
  specification asks for, in its fixed order (start period, end period, user identifier,
  service name, restricted to those present), each with the value of its parameter;
  \<open>numbered\<close> gives the i-th of them the placeholder \<open>$i\<close>.
\<close>

datatype sql_cond = StartDateGe nat | EndDateNullOrGe nat | UserIdEq nat | ServiceNameEq nat

fun render_cond :: "sql_cond \<Rightarrow> string" where
  "render_cond (StartDateGe k) = '' AND start_date >= $'' @ fmt_d k"
| "render_cond (EndDateNullOrGe k) =
     '' AND (end_date IS NULL OR end_date >= $'' @ fmt_d k @ '')''"
| "render_cond (UserIdEq k) = '' AND user_id = $'' @ fmt_d k"
| "render_cond (ServiceNameEq k) = '' AND service_name = $'' @ fmt_d k"

definition cost_filters ::
  "string \<Rightarrow> string \<Rightarrow> uuid option \<Rightarrow> string option \<Rightarrow> ((nat \<Rightarrow> sql_cond) \<times> arg) list" where
  "cost_filters startDate endDate userID serviceName =
     (if startDate \<noteq> [] then [(StartDateGe, ArgString startDate)] else []) @
     (if endDate \<noteq> [] then [(EndDateNullOrGe, ArgString endDate)] else []) @
     (case userID of Some uid \<Rightarrow> [(UserIdEq, ArgUUID uid)] | None \<Rightarrow> []) @
     (case serviceName of Some name \<Rightarrow> [(ServiceNameEq, ArgString name)] | None \<Rightarrow> [])"

definition numbered :: "((nat \<Rightarrow> sql_cond) \<times> arg) list \<Rightarrow> sql_cond list" where
  "numbered fs = map (\<lambda>(i, (c, a)). c (Suc i)) (enumerate 0 fs)"

text \<open>
  The placeholders of a statement text, in order of occurrence: each \<^verbatim>\<open>$\<close> followed by
  at least one digit, read as a decimal number.
\<close>

definition digit_val :: "char \<Rightarrow> nat" where
  "digit_val c = of_char c - 48"

definition parse_d :: "string \<Rightarrow> nat" where
  "parse_d ds = foldl (\<lambda>n d. 10 * n + digit_val d) 0 ds"

fun placeholders :: "string \<Rightarrow> nat list" where
  "placeholders [] = []"
| "placeholders (c # cs) =
     (if c = CHR ''$'' \<and> takeWhile is_digit cs \<noteq> []
      then parse_d (takeWhile is_digit cs) # placeholders cs
      else placeholders cs)"

text \<open>
  What a condition selects, as SQL evaluates it on a row of \<open>subscriptions\<close> (the
  columns \<open>start_date\<close> and \<open>end_date\<close> are \<open>VARCHAR(7)\<close>, \<open>end_date\<close> nullable, in
  migrations/000001_create_subscriptions.up.sql). \<open>param args k\<close> is the value bound to
  \<open>$k\<close>. The comparison \<open>>=\<close> of two text values is the store's, the parameter
  \<open>text_ge\<close>; \<open>bytes_ge\<close> is the plain bytewise lexicographic ordering.
  A row is selected when every appended condition holds (\<open>WHERE 1=1 AND ... AND ...\<close>).
\<close>

definition param :: "arg list \<Rightarrow> nat \<Rightarrow> arg option" where
  "param args k = (if 1 \<le> k \<and> k \<le> length args then Some (args ! (k - 1)) else None)"

fun cond_holds :: "(string \<Rightarrow> string \<Rightarrow> bool) \<Rightarrow> arg list \<Rightarrow> Subscription \<Rightarrow> sql_cond \<Rightarrow> bool" where
  "cond_holds text_ge args row (StartDateGe k) =
     (case param args k of Some (ArgString v) \<Rightarrow> text_ge (sub_StartDate row) v | _ \<Rightarrow> False)"
| "cond_holds text_ge args row (EndDateNullOrGe k) =
     (case sub_EndDate row of
        None \<Rightarrow> True
      | Some e \<Rightarrow> (case param args k of Some (ArgString v) \<Rightarrow> text_ge e v | _ \<Rightarrow> False))"
| "cond_holds text_ge args row (UserIdEq k) =
     (case param args k of Some (ArgUUID v) \<Rightarrow> sub_UserID row = v | _ \<Rightarrow> False)"
| "cond_holds text_ge args row (ServiceNameEq k) =
     (case param args k of Some (ArgString v) \<Rightarrow> sub_ServiceName row = v | _ \<Rightarrow> False)"

definition where_holds ::
  "(string \<Rightarrow> string \<Rightarrow> bool) \<Rightarrow> arg list \<Rightarrow> Subscription \<Rightarrow> sql_cond list \<Rightarrow> bool" where
  "where_holds text_ge args row conds = list_all (cond_holds text_ge args row) conds"

fun bytes_ge :: "string \<Rightarrow> string \<Rightarrow> bool" where
  "bytes_ge xs [] = True"
| "bytes_ge [] (y # ys) = False"
| "bytes_ge (x # xs) (y # ys) =
     ((of_char x :: nat) > of_char y \<or> (x = y \<and> bytes_ge xs ys))"

section \<open>Properties of the period validator\<close>

lemma match_here_BeginText_not_at_start: "\<not> match_here (BeginText # rs) False inp"
  by simp

lemma search_BeginText_not_at_start: "\<not> search (BeginText # rs) False inp"
  by (induction inp) simp_all

lemma search_BeginText: "search (BeginText # rs) True inp = match_here rs True inp"
  by (cases inp) (simp_all add: search_BeginText_not_at_start)

lemma pattern_unfold:
  "pattern = BeginText # [Digit, Digit, Literal CHR ''-'', Digit, Digit, Digit, Digit, EndText]"
  by (simp add: pattern_def counted_def numeral_eq_Suc)

lemma length_7_conv:
  "length s = 7 \<Longrightarrow> (\<exists>a b c d e f g. s = [a, b, c, d, e, f, g])"
  by (auto simp: numeral_eq_Suc length_Suc_conv)

lemma match_digits_length:
  "match_here [Digit, Digit, Literal CHR ''-'', Digit, Digit, Digit, Digit, EndText] b s \<Longrightarrow> length s = 7"
  by (simp split: list.splits)

lemma MatchString_pattern: "regexp_MatchString pattern s = two_digits_hyphen_four_digits s"
proof (cases "length s = 7")
  case True
  then obtain a b c d e f g where "s = [a, b, c, d, e, f, g]"
    using length_7_conv by blast
  then show ?thesis
    by (simp add: regexp_MatchString_def pattern_unfold search_BeginText
        two_digits_hyphen_four_digits_def)
next
  case False
  then have "\<not> match_here [Digit, Digit, Literal CHR ''-'', Digit, Digit, Digit, Digit, EndText] True s"
    using match_digits_length by blast
  with False show ?thesis
    by (simp add: regexp_MatchString_def pattern_unfold search_BeginText
        two_digits_hyphen_four_digits_def)
qed

lemma validateDateFormat_shape:
  "validateDateFormat s =
     (if s = [] then Some (Errorf ''date cannot be empty'')
      else if two_digits_hyphen_four_digits s then None
      else Some (Errorf ''date must be in MM-YYYY format''))"
  by (simp add: validateDateFormat_def MatchString_pattern)

lemma shape_nonempty: "two_digits_hyphen_four_digits s \<Longrightarrow> s \<noteq> []"
  by (auto simp: two_digits_hyphen_four_digits_def)

text \<open>
  Claim C2. The period validator accepts a string exactly when it consists of two digits,
  a hyphen and four digits; the two leading digits are not range-checked, so \<open>13-2025\<close>
  is accepted. Every other string, among them the empty string, \<open>2025-01\<close>, \<open>1-2025\<close>
  and \<open>01-25\<close>, is rejected with an invalid-period-format error.
\<close>

theorem validateDateFormat_accepts_iff_shape:
  "(validateDateFormat s = None \<longleftrightarrow> two_digits_hyphen_four_digits s) \<and>
   (\<not> two_digits_hyphen_four_digits s \<longrightarrow>
      (\<exists>e. validateDateFormat s = Some e \<and> InvalidPeriodFormat e)) \<and>
   validateDateFormat ''13-2025'' = None \<and>
   (\<exists>e. validateDateFormat [] = Some e \<and> InvalidPeriodFormat e) \<and>
   (\<exists>e. validateDateFormat ''2025-01'' = Some e \<and> InvalidPeriodFormat e) \<and>
   (\<exists>e. validateDateFormat ''1-2025'' = Some e \<and> InvalidPeriodFormat e) \<and>
   (\<exists>e. validateDateFormat ''01-25'' = Some e \<and> InvalidPeriodFormat e)"
proof -
  have general: "validateDateFormat s = None \<longleftrightarrow> two_digits_hyphen_four_digits s"
    using shape_nonempty [of s] by (auto simp: validateDateFormat_shape)
  have rejects: "\<exists>e. validateDateFormat t = Some e \<and> InvalidPeriodFormat e"
    if "\<not> two_digits_hyphen_four_digits t" for t
    using that by (simp add: validateDateFormat_shape InvalidPeriodFormat_def)
  have thirteen: "validateDateFormat ''13-2025'' = None"
    by (simp add: validateDateFormat_shape two_digits_hyphen_four_digits_def is_digit_def)
  have "\<not> two_digits_hyphen_four_digits []"
    and "\<not> two_digits_hyphen_four_digits ''2025-01''"
    and "\<not> two_digits_hyphen_four_digits ''1-2025''"
    and "\<not> two_digits_hyphen_four_digits ''01-25''"
    by (simp_all add: two_digits_hyphen_four_digits_def is_digit_def)
  with general rejects thirteen show ?thesis by blast
qed

theorem validateDateFormat_accepts_iff_shape_witness:
  "two_digits_hyphen_four_digits ''01-2025'' \<and> validateDateFormat ''01-2025'' = None \<and>
   \<not> two_digits_hyphen_four_digits ''2025-01'' \<and>
   validateDateFormat ''2025-01'' = Some (Errorf ''date must be in MM-YYYY format'')"
proof -
  have yes: "two_digits_hyphen_four_digits ''01-2025''"
    by (simp add: two_digits_hyphen_four_digits_def is_digit_def)
  have no: "\<not> two_digits_hyphen_four_digits ''2025-01''"
    by (simp add: two_digits_hyphen_four_digits_def is_digit_def)
  have run: "validateDateFormat ''2025-01'' = Some (Errorf ''date must be in MM-YYYY format'')"
    by (simp add: validateDateFormat_def regexp_MatchString_def pattern_def counted_def
        is_digit_def numeral_eq_Suc)
  from yes no run validateDateFormat_accepts_iff_shape [of "''01-2025''"]
    validateDateFormat_accepts_iff_shape [of "''2025-01''"]
  show ?thesis by simp
qed

section \<open>Properties of the cost query builder\<close>

lemma Sprintf_start: "Sprintf '' AND start_date >= $%d'' n = '' AND start_date >= $'' @ fmt_d n"
  by simp
lemma Sprintf_end: "Sprintf '' AND (end_date IS NULL OR end_date >= $%d)'' n = '' AND (end_date IS NULL OR end_date >= $'' @ fmt_d n @ '')''"
  by simp
lemma Sprintf_user: "Sprintf '' AND user_id = $%d'' n = '' AND user_id = $'' @ fmt_d n"
  by simp
lemma Sprintf_service: "Sprintf '' AND service_name = $%d'' n = '' AND service_name = $'' @ fmt_d n"
  by simp

lemma buildCostQuery_structure:
  "buildCostQuery startDate endDate userID serviceName =
     (baseQuery @ concat (map render_cond (numbered (cost_filters startDate endDate userID serviceName))),
      map snd (cost_filters startDate endDate userID serviceName))"
  by (cases userID; cases serviceName)
     (simp_all add: buildCostQuery_def cost_filters_def numbered_def
        Sprintf_start Sprintf_end Sprintf_user Sprintf_service del: Sprintf.simps)

lemma numbered_nth: "k < length fs \<Longrightarrow> numbered fs ! k = fst (fs ! k) (Suc k)"
  by (simp add: numbered_def nth_enumerate_eq split: prod.splits)

lemma length_numbered: "length (numbered fs) = length fs"
  by (simp add: numbered_def)

lemma param_map_snd: "k < length fs \<Longrightarrow> param (map snd fs) (Suc k) = Some (snd (fs ! k))"
  by (simp add: param_def)

text \<open>
  Claim C1. For every combination of filters the builder's statement is the base clause
  followed by the conditions of the filters present, in the order start period, end
  period, user identifier, service name, and its parameter list holds their values in
  the same order: the condition at position \<open>k\<close> (counting from 0) carries the
  placeholder \<open>$(k+1)\<close>, and the parameter bound to that placeholder is that condition's
  value. With a start period, a user identifier and a service name the list is
  [start, user, service] without an end period and [start, end, user, service] with one.
\<close>

theorem buildCostQuery_parameter_order:
  "buildCostQuery startDate endDate userID serviceName =
     (baseQuery @ concat (map render_cond (numbered (cost_filters startDate endDate userID serviceName))),
      map snd (cost_filters startDate endDate userID serviceName)) \<and>
   (\<forall>k < length (cost_filters startDate endDate userID serviceName).
      numbered (cost_filters startDate endDate userID serviceName) ! k =
        fst (cost_filters startDate endDate userID serviceName ! k) (Suc k) \<and>
      param (snd (buildCostQuery startDate endDate userID serviceName)) (Suc k) =
        Some (snd (cost_filters startDate endDate userID serviceName ! k))) \<and>
   (startDate \<noteq> [] \<longrightarrow>
      snd (buildCostQuery startDate [] (Some uid) (Some name)) =
        [ArgString startDate, ArgUUID uid, ArgString name]) \<and>
   (startDate \<noteq> [] \<and> endDate \<noteq> [] \<longrightarrow>
      snd (buildCostQuery startDate endDate (Some uid) (Some name)) =
        [ArgString startDate, ArgString endDate, ArgUUID uid, ArgString name])"
  by (simp add: buildCostQuery_structure numbered_nth param_map_snd) (simp add: cost_filters_def)


theorem buildCostQuery_parameter_order_witness:
  "''01-2025'' \<noteq> [] \<and> ''12-2025'' \<noteq> [] \<and>
   1 < length (cost_filters ''01-2025'' ''12-2025'' (Some 5) (Some ''Netflix'')) \<and>
   param (snd (buildCostQuery ''01-2025'' ''12-2025'' (Some 5) (Some ''Netflix''))) 2 =
     Some (ArgString ''12-2025'') \<and>
   snd (buildCostQuery ''01-2025'' [] (Some 5) (Some ''Netflix'')) =
     [ArgString ''01-2025'', ArgUUID 5, ArgString ''Netflix''] \<and>
   snd (buildCostQuery ''01-2025'' ''12-2025'' (Some 5) (Some ''Netflix'')) =
     [ArgString ''01-2025'', ArgString ''12-2025'', ArgUUID 5, ArgString ''Netflix'']"
proof -
  note order = buildCostQuery_parameter_order
    [of "''01-2025''" "''12-2025''" "Some 5" "Some ''Netflix''" 5 "''Netflix''"]
  have len: "1 < length (cost_filters ''01-2025'' ''12-2025'' (Some 5) (Some ''Netflix''))"
    by (simp add: cost_filters_def)
  from order len have
    "param (snd (buildCostQuery ''01-2025'' ''12-2025'' (Some 5) (Some ''Netflix''))) (Suc 1) =
       Some (snd (cost_filters ''01-2025'' ''12-2025'' (Some 5) (Some ''Netflix'') ! 1))"
    by blast
  then have second:
    "param (snd (buildCostQuery ''01-2025'' ''12-2025'' (Some 5) (Some ''Netflix''))) 2 =
       Some (ArgString ''12-2025'')"
    by (simp add: cost_filters_def numeral_2_eq_2)
  have ne: "''01-2025'' \<noteq> []" "''12-2025'' \<noteq> []"
    by simp_all
  from order ne have three:
    "snd (buildCostQuery ''01-2025'' [] (Some 5) (Some ''Netflix'')) =
       [ArgString ''01-2025'', ArgUUID 5, ArgString ''Netflix'']"
    by blast
  from order ne have four:
    "snd (buildCostQuery ''01-2025'' ''12-2025'' (Some 5) (Some ''Netflix'')) =
       [ArgString ''01-2025'', ArgString ''12-2025'', ArgUUID 5, ArgString ''Netflix'']"
    by blast
  from ne len second three four show ?thesis by blast
qed

section \<open>Properties of the cost-aggregation operation\<close>

lemma recording_GetCostByPeriod:
  "repo_GetCostByPeriod (recording repo) sd ed u s (st, calls) =
     (fst (repo_GetCostByPeriod repo sd ed u s st),
      (snd (repo_GetCostByPeriod repo sd ed u s st), calls @ [CallGetCostByPeriod sd ed u s]))"
  by (simp add: recording_def split: prod.splits)

lemma recording_Create:
  "repo_Create (recording repo) req (st, calls) =
     (fst (repo_Create repo req st), (snd (repo_Create repo req st), calls @ [CallCreate req]))"
  by (simp add: recording_def split: prod.splits)

lemma recording_Update:
  "repo_Update (recording repo) sid req (st, calls) =
     (fst (repo_Update repo sid req st),
      (snd (repo_Update repo sid req st), calls @ [CallUpdate sid req]))"
  by (simp add: recording_def split: prod.splits)

lemma service_GetCostByPeriod_validation:
  "service_GetCostByPeriod repo sd ed u s st =
     (case cost_validation sd ed of
        Some err \<Rightarrow> (Inl err, st)
      | None \<Rightarrow>
          (case repo_GetCostByPeriod repo sd ed u s st of
             ((totalCost, count, Some err), st') \<Rightarrow> (Inl err, st')
           | ((totalCost, count, None), st') \<Rightarrow>
               (Inr \<lparr>TotalCost = totalCost, Count = count\<rparr>, st')))"
  by (simp add: service_GetCostByPeriod_def cost_validation_def split: option.splits)

lemma validateDateFormat_13_2025: "validateDateFormat ''13-2025'' = None"
  by (simp add: validateDateFormat_shape two_digits_hyphen_four_digits_def is_digit_def)

lemma validateDateFormat_01_2025: "validateDateFormat ''01-2025'' = None"
  by (simp add: validateDateFormat_shape two_digits_hyphen_four_digits_def is_digit_def)

text \<open>
  Claim C3. Whatever the user identifier and service name filters, the cost-aggregation
  operation called with both periods empty fails with the missing-date-range error and
  issues no store read: the repository's state is returned as it was, and a recording
  repository logs no call.
\<close>

theorem GetCostByPeriod_both_dates_empty:
  "service_GetCostByPeriod repo [] [] userID serviceName st =
     (Inl (Errorf ''at least one date parameter is required''), st) \<and>
   MissingDateRange (Errorf ''at least one date parameter is required'') \<and>
   service_GetCostByPeriod (recording repo) [] [] userID serviceName (st, calls) =
     (Inl (Errorf ''at least one date parameter is required''), (st, calls))"
  by (simp add: service_GetCostByPeriod_def MissingDateRange_def)

theorem GetCostByPeriod_both_dates_empty_witness:
  "service_GetCostByPeriod (recording MockRepository) [] [] (Some 5) (Some ''Netflix'') ((), []) =
     (Inl (Errorf ''at least one date parameter is required''), ((), []))"
  using GetCostByPeriod_both_dates_empty [of MockRepository "Some 5" "Some ''Netflix''" "()" "[]"]
  by blast

text \<open>
  Claim C4 says that a call with an empty start period and a well-formed end period
  passes validation and reaches the store read. The operation validates the start period
  unconditionally, so on this input it returns the validator's error for the empty
  string and the repository is not called.
\<close>

theorem GetCostByPeriod_end_date_only_rejected:
  "service_GetCostByPeriod (recording MockRepository) [] ''01-2025'' None None ((), []) =
     (Inl (Errorf ''date cannot be empty''), ((), []))"
  by (simp add: service_GetCostByPeriod_def validateDateFormat_def)

text \<open>
  Claim C5 says that the operation called with start period \<open>13-2025\<close> and an empty end
  period fails with the invalid-period-format error. On the test repository the call
  succeeds and the store read is issued.
\<close>

theorem GetCostByPeriod_13_2025_reads_store:
  "service_GetCostByPeriod (recording MockRepository) ''13-2025'' [] None None ((), []) =
     (Inr \<lparr>TotalCost = 0, Count = 0\<rparr>, ((), [CallGetCostByPeriod ''13-2025'' [] None None]))"
  by (simp add: service_GetCostByPeriod_def validateDateFormat_13_2025
      recording_GetCostByPeriod MockRepository_def)

text \<open>
  Claim C5, amended. The operation called with start period \<open>13-2025\<close> and an empty end
  period passes validation (the month digits are not range-checked) and issues the store
  read; its outcome is that of the read, an error only when the read fails.
\<close>

theorem GetCostByPeriod_13_2025_passes_validation:
  "validateDateFormat ''13-2025'' = None \<and>
   service_GetCostByPeriod repo ''13-2025'' [] userID serviceName st =
     (case repo_GetCostByPeriod repo ''13-2025'' [] userID serviceName st of
        ((totalCost, count, Some err), st') \<Rightarrow> (Inl err, st')
      | ((totalCost, count, None), st') \<Rightarrow>
          (Inr \<lparr>TotalCost = totalCost, Count = count\<rparr>, st')) \<and>
   snd (snd (service_GetCostByPeriod (recording repo) ''13-2025'' [] userID serviceName (st, calls))) =
     calls @ [CallGetCostByPeriod ''13-2025'' [] userID serviceName]"
  by (simp add: service_GetCostByPeriod_def validateDateFormat_13_2025
      recording_GetCostByPeriod split: prod.splits option.splits)

theorem GetCostByPeriod_13_2025_passes_validation_witness:
  "service_GetCostByPeriod
     (MockRepository\<lparr>repo_GetCostByPeriod :=
        repository_GetCostByPeriod (constant_db 150 2)\<rparr>)
     ''13-2025'' [] None None () =
   (Inr \<lparr>TotalCost = 150, Count = 2\<rparr>, ())"
  using GetCostByPeriod_13_2025_passes_validation
    [of "MockRepository\<lparr>repo_GetCostByPeriod := repository_GetCostByPeriod (constant_db 150 2)\<rparr>"
        None None "()"]
  by (simp add: repository_GetCostByPeriod_def constant_db_def split: prod.splits)

lemma cost_validation_None:
  "cost_validation sd ed = None \<longleftrightarrow>
     \<not> (sd = [] \<and> ed = []) \<and> validateDateFormat sd = None \<and>
     (ed = [] \<or> validateDateFormat ed = None)"
  by (auto simp: cost_validation_def split: option.splits)

lemma repository_GetCostByPeriod_fails:
  "db (fst (buildCostQuery sd ed u s)) (snd (buildCostQuery sd ed u s)) st = (Inl err, st') \<Longrightarrow>
   repository_GetCostByPeriod db sd ed u s st =
     ((0, 0, Some (Wrapf ''failed to calculate cost: '' err)), st')"
  by (simp add: repository_GetCostByPeriod_def case_prod_beta)

text \<open>
  Claim C7. For every input of the cost-aggregation operation: when one of its validation
  checks fails, the operation returns that error with the repository's state untouched
  and a recording repository logs no call, so the store read is never issued; when the
  checks pass and the repository's read returns an error, the operation returns that
  error and no cost result. With the repository of repository.go in place, a failed
  \<open>QueryRow\<close> reaches the caller as the wrapped error, never as the \<open>0, 0\<close> that the
  repository returns beside it.
\<close>

theorem GetCostByPeriod_errors_propagate:
  "(cost_validation startDate endDate = Some err \<longrightarrow>
      service_GetCostByPeriod repo startDate endDate userID serviceName st = (Inl err, st) \<and>
      service_GetCostByPeriod (recording repo) startDate endDate userID serviceName (st, calls) =
        (Inl err, (st, calls))) \<and>
   (cost_validation startDate endDate = None \<and>
    repo_GetCostByPeriod repo startDate endDate userID serviceName st =
      ((totalCost, count, Some err), st') \<longrightarrow>
      service_GetCostByPeriod repo startDate endDate userID serviceName st = (Inl err, st')) \<and>
   (cost_validation startDate endDate = None \<and>
    db (fst (buildCostQuery startDate endDate userID serviceName))
       (snd (buildCostQuery startDate endDate userID serviceName)) st = (Inl err, st') \<longrightarrow>
      service_GetCostByPeriod
        (repo\<lparr>repo_GetCostByPeriod := repository_GetCostByPeriod db\<rparr>)
        startDate endDate userID serviceName st =
        (Inl (Wrapf ''failed to calculate cost: '' err), st')) \<and>
   (cost_validation startDate endDate = None \<longleftrightarrow>
      \<not> (startDate = [] \<and> endDate = []) \<and> validateDateFormat startDate = None \<and>
      (endDate = [] \<or> validateDateFormat endDate = None))"
proof -
  have a: "cost_validation startDate endDate = Some err \<Longrightarrow>
      service_GetCostByPeriod repo startDate endDate userID serviceName st = (Inl err, st)"
    by (simp add: service_GetCostByPeriod_validation)
  have b: "cost_validation startDate endDate = Some err \<Longrightarrow>
      service_GetCostByPeriod (recording repo) startDate endDate userID serviceName (st, calls) =
        (Inl err, (st, calls))"
    by (simp add: service_GetCostByPeriod_validation)
  have c: "cost_validation startDate endDate = None \<Longrightarrow>
    repo_GetCostByPeriod repo startDate endDate userID serviceName st =
      ((totalCost, count, Some err), st') \<Longrightarrow>
      service_GetCostByPeriod repo startDate endDate userID serviceName st = (Inl err, st')"
    by (simp add: service_GetCostByPeriod_validation)
  have d: "cost_validation startDate endDate = None \<Longrightarrow>
    db (fst (buildCostQuery startDate endDate userID serviceName))
       (snd (buildCostQuery startDate endDate userID serviceName)) st = (Inl err, st') \<Longrightarrow>
      service_GetCostByPeriod
        (repo\<lparr>repo_GetCostByPeriod := repository_GetCostByPeriod db\<rparr>)
        startDate endDate userID serviceName st =
        (Inl (Wrapf ''failed to calculate cost: '' err), st')"
    by (simp add: service_GetCostByPeriod_validation repository_GetCostByPeriod_fails)
  from a b c d cost_validation_None [of startDate endDate] show ?thesis by blast
qed

theorem GetCostByPeriod_errors_propagate_witness:
  "cost_validation ''2025-01'' [] = Some (Errorf ''date must be in MM-YYYY format'') \<and>
   service_GetCostByPeriod (recording MockRepository) ''2025-01'' [] None None ((), []) =
     (Inl (Errorf ''date must be in MM-YYYY format''), ((), [])) \<and>
   cost_validation ''01-2025'' [] = None \<and>
   service_GetCostByPeriod
     (MockRepository\<lparr>repo_GetCostByPeriod :=
        repository_GetCostByPeriod (failing_db (Errorf ''connection refused''))\<rparr>)
     ''01-2025'' [] None None () =
     (Inl (Wrapf ''failed to calculate cost: '' (Errorf ''connection refused'')), ())"
proof -
  have bad: "cost_validation ''2025-01'' [] = Some (Errorf ''date must be in MM-YYYY format'')"
    by (simp add: cost_validation_def validateDateFormat_shape
        two_digits_hyphen_four_digits_def is_digit_def)
  have good: "cost_validation ''01-2025'' [] = None"
    by (simp add: cost_validation_def validateDateFormat_01_2025)
  have fails: "failing_db (Errorf ''connection refused'')
       (fst (buildCostQuery ''01-2025'' [] None None))
       (snd (buildCostQuery ''01-2025'' [] None None)) () =
     (Inl (Errorf ''connection refused''), ())"
    by (simp add: failing_db_def)
  from bad GetCostByPeriod_errors_propagate
    [of "''2025-01''" "[]" "Errorf ''date must be in MM-YYYY format''" MockRepository None None
        "()" "[]"]
  have one: "service_GetCostByPeriod (recording MockRepository) ''2025-01'' [] None None ((), []) =
     (Inl (Errorf ''date must be in MM-YYYY format''), ((), []))"
    by blast
  from good fails GetCostByPeriod_errors_propagate
    [of "''01-2025''" "[]" "Errorf ''connection refused''" MockRepository None None "()" "[]"
        0 0 "()" "failing_db (Errorf ''connection refused'')"]
  have two: "service_GetCostByPeriod
     (MockRepository\<lparr>repo_GetCostByPeriod :=
        repository_GetCostByPeriod (failing_db (Errorf ''connection refused''))\<rparr>)
     ''01-2025'' [] None None () =
     (Inl (Wrapf ''failed to calculate cost: '' (Errorf ''connection refused'')), ())"
    by blast
  from bad good one two show ?thesis by blast
qed

section \<open>Properties of subscription creation and update\<close>

lemma validateSubscriptionRequest_None:
  "validateSubscriptionRequest req = None \<longleftrightarrow>
     ServiceName req \<noteq> [] \<and> 0 < Price req \<and> UserID req \<noteq> uuid_Nil \<and>
     validateDateFormat (StartDate req) = None \<and>
     (case EndDate req of None \<Rightarrow> True
      | Some endDate \<Rightarrow> endDate = [] \<or> validateDateFormat endDate = None)"
  by (auto simp: validateSubscriptionRequest_def split: option.splits)

lemma service_CreateSubscription_rejects:
  "validateSubscriptionRequest req \<noteq> None \<Longrightarrow>
   \<exists>err. service_CreateSubscription repo req st = (Inl err, st) \<and>
         service_CreateSubscription (recording repo) req (st, calls) = (Inl err, (st, calls))"
  by (auto simp: service_CreateSubscription_def)

lemma service_CreateSubscription_passes:
  "validateSubscriptionRequest req = None \<Longrightarrow>
   service_CreateSubscription repo req st = repo_Create repo req st \<and>
   service_CreateSubscription (recording repo) req (st, calls) =
     (fst (repo_Create repo req st), (snd (repo_Create repo req st), calls @ [CallCreate req]))"
  by (simp add: service_CreateSubscription_def recording_Create)

text \<open>
  Claim C8. Subscription creation rejects, without calling the repository, every request
  whose service name is empty, whose price is not strictly positive, whose user
  identifier is the nil UUID, whose start period fails the period validator, or whose end
  period is present and non-empty and fails the validator. A request with none of these
  faults is handed to the repository's \<open>Create\<close> unchanged, and the operation's result
  is the repository's.
\<close>

theorem CreateSubscription_validation:
  "(ServiceName req = [] \<or> Price req \<le> 0 \<or> UserID req = uuid_Nil \<or>
    validateDateFormat (StartDate req) \<noteq> None \<or>
    (\<exists>endDate. EndDate req = Some endDate \<and> endDate \<noteq> [] \<and>
       validateDateFormat endDate \<noteq> None) \<longrightarrow>
      (\<exists>err. service_CreateSubscription repo req st = (Inl err, st) \<and>
        service_CreateSubscription (recording repo) req (st, calls) = (Inl err, (st, calls)))) \<and>
   (ServiceName req \<noteq> [] \<and> 0 < Price req \<and> UserID req \<noteq> uuid_Nil \<and>
    validateDateFormat (StartDate req) = None \<and>
    (\<forall>endDate. EndDate req = Some endDate \<and> endDate \<noteq> [] \<longrightarrow>
       validateDateFormat endDate = None) \<longrightarrow>
      service_CreateSubscription repo req st = repo_Create repo req st \<and>
      service_CreateSubscription (recording repo) req (st, calls) =
        (fst (repo_Create repo req st),
         (snd (repo_Create repo req st), calls @ [CallCreate req])))"
proof (intro conjI impI)
  assume bad: "ServiceName req = [] \<or> Price req \<le> 0 \<or> UserID req = uuid_Nil \<or>
    validateDateFormat (StartDate req) \<noteq> None \<or>
    (\<exists>endDate. EndDate req = Some endDate \<and> endDate \<noteq> [] \<and>
       validateDateFormat endDate \<noteq> None)"
  then have "validateSubscriptionRequest req \<noteq> None"
    unfolding validateSubscriptionRequest_None by (auto split: option.splits)
  then show "\<exists>err. service_CreateSubscription repo req st = (Inl err, st) \<and>
        service_CreateSubscription (recording repo) req (st, calls) = (Inl err, (st, calls))"
    by (rule service_CreateSubscription_rejects)
next
  assume good: "ServiceName req \<noteq> [] \<and> 0 < Price req \<and> UserID req \<noteq> uuid_Nil \<and>
    validateDateFormat (StartDate req) = None \<and>
    (\<forall>endDate. EndDate req = Some endDate \<and> endDate \<noteq> [] \<longrightarrow>
       validateDateFormat endDate = None)"
  then have ok: "validateSubscriptionRequest req = None"
    unfolding validateSubscriptionRequest_None by (auto split: option.splits)
  from service_CreateSubscription_passes [OF ok, of repo st calls]
  show "service_CreateSubscription repo req st = repo_Create repo req st"
    and "service_CreateSubscription (recording repo) req (st, calls) =
        (fst (repo_Create repo req st),
         (snd (repo_Create repo req st), calls @ [CallCreate req]))"
    by simp_all
qed


theorem CreateSubscription_validation_witness:
  "service_CreateSubscription (recording MockRepository)
     \<lparr>ServiceName = ''Netflix'', Price = 0, UserID = 7, StartDate = ''01-2025'',
      EndDate = None\<rparr> ((), []) =
     (Inl (Errorf ''price must be greater than 0''), ((), [])) \<and>
   snd (service_CreateSubscription (recording MockRepository)
     \<lparr>ServiceName = ''Netflix'', Price = 100, UserID = 7, StartDate = ''01-2025'',
      EndDate = None\<rparr> ((), [])) =
     ((), [CallCreate \<lparr>ServiceName = ''Netflix'', Price = 100, UserID = 7,
                      StartDate = ''01-2025'', EndDate = None\<rparr>])"
proof -
  let ?bad = "\<lparr>ServiceName = ''Netflix'', Price = 0, UserID = 7, StartDate = ''01-2025'',
      EndDate = None\<rparr>"
  let ?good = "\<lparr>ServiceName = ''Netflix'', Price = 100, UserID = 7, StartDate = ''01-2025'',
      EndDate = None\<rparr>"
  have "Price ?bad \<le> 0" by simp
  with CreateSubscription_validation [of ?bad MockRepository "()" "[]"]
  obtain err where rejected:
    "service_CreateSubscription (recording MockRepository) ?bad ((), []) = (Inl err, ((), []))"
    by blast
  have "validateSubscriptionRequest ?bad = Some (Errorf ''price must be greater than 0'')"
    by (simp add: validateSubscriptionRequest_def)
  with rejected have one:
    "service_CreateSubscription (recording MockRepository) ?bad ((), []) =
       (Inl (Errorf ''price must be greater than 0''), ((), []))"
    by (simp add: service_CreateSubscription_def)
  have "ServiceName ?good \<noteq> [] \<and> 0 < Price ?good \<and> UserID ?good \<noteq> uuid_Nil \<and>
    validateDateFormat (StartDate ?good) = None \<and>
    (\<forall>endDate. EndDate ?good = Some endDate \<and> endDate \<noteq> [] \<longrightarrow>
       validateDateFormat endDate = None)"
    by (simp add: uuid_Nil_def validateDateFormat_01_2025)
  with CreateSubscription_validation [of ?good MockRepository "()" "[]"]
  have "service_CreateSubscription (recording MockRepository) ?good ((), []) =
        (fst (repo_Create MockRepository ?good ()),
         (snd (repo_Create MockRepository ?good ()), [] @ [CallCreate ?good]))"
    by blast
  then have two: "snd (service_CreateSubscription (recording MockRepository) ?good ((), [])) =
     ((), [CallCreate ?good])"
    by simp
  from one two show ?thesis by blast
qed

end
